theory Spec2Isabelle
  imports Main "HOL-Library.Word" "HOL-Library.AList"
begin

section \<open>Data model of server\_secure\_chttp2.c\<close>

text \<open>
  A non-NULL C pointer is an address of type \<open>ptr\<close>; a pointer that may be NULL is a
  \<open>ptr option\<close>, with \<open>None\<close> for NULL. A \<open>struct sockaddr\<close> together with its
  length is the list of its bytes.
\<close>

type_synonym ptr = nat
type_synonym sockaddr = "8 word list"
type_synonym grpc_channel_args = "(string \<times> string) list"
type_synonym ssl_config = string

text \<open>
  Modelled from the spec: the enumeration \<open>grpc_security_status\<close> is declared in
  security\_context.h, which is not part of the sources. The spec gives the statuses OK and
  ERROR; any further enumerator of the header is a \<open>Security_status_other\<close>.
\<close>

datatype grpc_security_status =
  GRPC_SECURITY_OK | GRPC_SECURITY_ERROR | Security_status_other nat

text \<open>The two channel filters whose addresses \<open>setup_transport\<close> puts in its array.\<close>

datatype grpc_channel_filter = grpc_http_server_filter | grpc_http_filter

text \<open>The functions of this file that are handed out as callbacks.\<close>

datatype fn = Fn_start | Fn_destroy | Fn_on_accept

datatype gpr_log_severity = GPR_DEBUG | GPR_INFO | GPR_ERROR

datatype log_arg = Arg_int int | Arg_uint nat | Arg_str string | Arg_status grpc_security_status

record log_entry =
  severity :: gpr_log_severity
  format :: string
  args :: "log_arg list"

text \<open>\<open>grpc_server_credentials\<close>: the type tag read by \<open>strcmp\<close>, and the SSL configuration.\<close>

record grpc_server_credentials =
  creds_type :: string
  creds_config :: ssl_config

text \<open>The struct \<open>secured_port\<close> of the source (lines 71-75).\<close>

record secured_port =
  sp_tcp :: ptr
  sp_ctx :: "ptr option"
  sp_server :: ptr

text \<open>
  A tcp server remembers every \<open>grpc_tcp_server_add_port\<close> made on it, with the value
  that call returned, and the accept callback it was started with, if it was started.
\<close>

record grpc_tcp_server =
  attempts :: "(sockaddr \<times> int) list"
  accepting :: "(fn \<times> ptr) option"

record listener =
  l_server :: ptr
  l_arg :: ptr
  l_start :: fn
  l_destroy :: fn

record chttp2_transport =
  tr_endpoint :: ptr
  tr_channel_args :: grpc_channel_args
  tr_nslices :: nat
  tr_mdctx :: ptr
  tr_is_client :: bool

record server_channel =
  ch_server :: ptr
  ch_transport :: ptr
  ch_extra_filters :: "grpc_channel_filter list"
  ch_mdctx :: ptr

text \<open>
  The state the file acts on: one association list per kind of allocation (a key is
  the address of a live object), the listeners registered with servers, the channels
  set up on servers, and the log.
\<close>

record world =
  contexts :: "(ptr \<times> nat) list"
  resolved_sets :: "(ptr \<times> sockaddr list) list"
  tcp_servers :: "(ptr \<times> grpc_tcp_server) list"
  blocks :: "(ptr \<times> secured_port option) list"
  mdctxs :: "(ptr \<times> unit) list"
  transports :: "(ptr \<times> chttp2_transport) list"
  channels :: "server_channel list"
  listeners :: "listener list"
  log_entries :: "log_entry list"

text \<open>
  What the collaborators outside this file decide, taken as parameters: the two
  credential type strings (macros of credentials.h), the status of the SSL context
  constructor and whether it stored a context through its out-parameter, the result of
  the address resolution, whether a tcp server could be created, the value returned by a
  bind (it may depend on every earlier bind on the same tcp server), and the channel
  arguments of a server.
\<close>

record env =
  GRPC_CREDENTIALS_TYPE_SSL :: string
  GRPC_CREDENTIALS_TYPE_FAKE_TRANSPORT_SECURITY :: string
  ssl_context_outcome :: "ssl_config \<Rightarrow> grpc_security_status \<times> bool"
  resolve_outcome :: "string \<Rightarrow> string \<Rightarrow> sockaddr list option"
  tcp_create_outcome :: bool
  add_port_outcome :: "(sockaddr \<times> int) list \<Rightarrow> sockaddr \<Rightarrow> int"
  channel_args_of :: "ptr \<Rightarrow> grpc_channel_args"

text \<open>
  A call either returns or stops the process: \<open>Assertion_failure\<close> is a failed
  \<open>GPR_ASSERT\<close>, \<open>Invalid_pointer\<close> the use of a NULL, dangling or uninitialised
  pointer.
\<close>

datatype fault = Assertion_failure | Invalid_pointer

definition and_then :: "fault + 'a \<Rightarrow> ('a \<Rightarrow> fault + 'b) \<Rightarrow> fault + 'b" where
  "and_then m f = (case m of Inl e \<Rightarrow> Inl e | Inr x \<Rightarrow> f x)"

text \<open>An allocator returns an address above every live address of the same kind.\<close>

fun top_ptr :: "(ptr \<times> 'v) list \<Rightarrow> ptr" where
  "top_ptr [] = 0"
| "top_ptr (e # h) = max (fst e) (top_ptr h)"

definition fresh_ptr :: "(ptr \<times> 'v) list \<Rightarrow> ptr" where
  "fresh_ptr h = Suc (top_ptr h)"

section \<open>The collaborators\<close>

text \<open>Modelled from the spec: \<open>gpr_log\<close> (log.h) appends one entry to the log.\<close>

definition gpr_log :: "gpr_log_severity \<Rightarrow> string \<Rightarrow> log_arg list \<Rightarrow> world \<Rightarrow> world" where
  "gpr_log sev fmt as w =
     w\<lparr>log_entries := log_entries w @ [\<lparr>severity = sev, format = fmt, args = as\<rparr>]\<rparr>"

text \<open>
  Modelled from the spec: the security context is reference counted and destroyed when
  its last owner releases it. \<open>grpc_security_context_unref\<close> (security\_context.h)
  drops one reference; on NULL or on a context that is not live it is a fault.
\<close>

definition grpc_security_context_unref :: "ptr option \<Rightarrow> world \<Rightarrow> fault + world" where
  "grpc_security_context_unref ctx w =
     (case ctx of
        None \<Rightarrow> Inl Invalid_pointer
      | Some c \<Rightarrow>
          (case map_of (contexts w) c of
             None \<Rightarrow> Inl Invalid_pointer
           | Some n \<Rightarrow>
               Inr (w\<lparr>contexts := (if n \<le> 1 then AList.delete c (contexts w)
                                     else AList.update c (n - 1) (contexts w))\<rparr>)))"

text \<open>
  Modelled from the spec: \<open>grpc_ssl_server_security_context_create\<close> returns a status
  and may store a new context, holding one reference, through its out-parameter.
\<close>

definition grpc_ssl_server_security_context_create ::
  "env \<Rightarrow> ssl_config \<Rightarrow> world \<Rightarrow> grpc_security_status \<times> ptr option \<times> world" where
  "grpc_ssl_server_security_context_create env config w =
     (case ssl_context_outcome env config of
        (st, stored) \<Rightarrow>
          if stored
          then (st, Some (fresh_ptr (contexts w)),
                w\<lparr>contexts := (fresh_ptr (contexts w), 1) # contexts w\<rparr>)
          else (st, None, w))"

text \<open>
  Modelled from the spec: \<open>grpc_fake_server_security_context_create\<close> returns a new
  context holding one reference.
\<close>

definition grpc_fake_server_security_context_create :: "world \<Rightarrow> ptr \<times> world" where
  "grpc_fake_server_security_context_create w =
     (fresh_ptr (contexts w), w\<lparr>contexts := (fresh_ptr (contexts w), 1) # contexts w\<rparr>)"

definition grpc_ssl_server_credentials_get_config :: "grpc_server_credentials \<Rightarrow> ssl_config" where
  "grpc_ssl_server_credentials_get_config creds = creds_config creds"

text \<open>
  Modelled from the spec: \<open>grpc_blocking_resolve_address\<close> (resolve\_address.h) returns
  NULL or a new \<open>grpc_resolved_addresses\<close> holding the resolved addresses in order;
  \<open>grpc_resolved_addresses_destroy\<close> frees it.
\<close>

definition grpc_blocking_resolve_address ::
  "env \<Rightarrow> string \<Rightarrow> string \<Rightarrow> world \<Rightarrow> ptr option \<times> world" where
  "grpc_blocking_resolve_address env addr default_port w =
     (case resolve_outcome env addr default_port of
        None \<Rightarrow> (None, w)
      | Some as \<Rightarrow>
          (Some (fresh_ptr (resolved_sets w)),
           w\<lparr>resolved_sets := (fresh_ptr (resolved_sets w), as) # resolved_sets w\<rparr>))"

definition resolved_addrs :: "ptr \<Rightarrow> world \<Rightarrow> fault + sockaddr list" where
  "resolved_addrs resolved w =
     (case map_of (resolved_sets w) resolved of
        None \<Rightarrow> Inl Invalid_pointer
      | Some as \<Rightarrow> Inr as)"

definition grpc_resolved_addresses_destroy :: "ptr \<Rightarrow> world \<Rightarrow> fault + world" where
  "grpc_resolved_addresses_destroy resolved w =
     (case map_of (resolved_sets w) resolved of
        None \<Rightarrow> Inl Invalid_pointer
      | Some as \<Rightarrow> Inr (w\<lparr>resolved_sets := AList.delete resolved (resolved_sets w)\<rparr>))"

text \<open>
  Modelled from the spec: the listener (tcp\_server.h). \<open>grpc_tcp_server_create\<close>
  returns NULL or a new server with no socket; \<open>grpc_tcp_server_add_port\<close> tries to bind
  one address and returns the bound port, or a negative value when the bind fails;
  \<open>grpc_tcp_server_start\<close> makes it accept connections, handing each to the callback;
  \<open>grpc_tcp_server_destroy\<close> stops and frees it.
\<close>

definition grpc_tcp_server_create :: "env \<Rightarrow> world \<Rightarrow> ptr option \<times> world" where
  "grpc_tcp_server_create env w =
     (if tcp_create_outcome env
      then (Some (fresh_ptr (tcp_servers w)),
            w\<lparr>tcp_servers :=
                 (fresh_ptr (tcp_servers w), \<lparr>attempts = [], accepting = None\<rparr>) # tcp_servers w\<rparr>)
      else (None, w))"

definition grpc_tcp_server_add_port ::
  "env \<Rightarrow> ptr \<Rightarrow> sockaddr \<Rightarrow> world \<Rightarrow> fault + (int \<times> world)" where
  "grpc_tcp_server_add_port env tcp a w =
     (case map_of (tcp_servers w) tcp of
        None \<Rightarrow> Inl Invalid_pointer
      | Some t \<Rightarrow>
          Inr (add_port_outcome env (attempts t) a,
               w\<lparr>tcp_servers :=
                    AList.update tcp
                      (t\<lparr>attempts := attempts t @ [(a, add_port_outcome env (attempts t) a)]\<rparr>)
                      (tcp_servers w)\<rparr>))"

definition grpc_tcp_server_start ::
  "ptr \<Rightarrow> ptr list \<Rightarrow> nat \<Rightarrow> fn \<Rightarrow> ptr \<Rightarrow> world \<Rightarrow> fault + world" where
  "grpc_tcp_server_start tcp pollsets pollset_count cb cb_arg w =
     (case map_of (tcp_servers w) tcp of
        None \<Rightarrow> Inl Invalid_pointer
      | Some t \<Rightarrow>
          Inr (w\<lparr>tcp_servers :=
                    AList.update tcp (t\<lparr>accepting := Some (cb, cb_arg)\<rparr>) (tcp_servers w)\<rparr>))"

definition grpc_tcp_server_destroy :: "ptr \<Rightarrow> world \<Rightarrow> fault + world" where
  "grpc_tcp_server_destroy tcp w =
     (case map_of (tcp_servers w) tcp of
        None \<Rightarrow> Inl Invalid_pointer
      | Some t \<Rightarrow> Inr (w\<lparr>tcp_servers := AList.delete tcp (tcp_servers w)\<rparr>))"

text \<open>
  Modelled from the spec: \<open>gpr_malloc\<close> and \<open>gpr_free\<close> (alloc.h), for the one type this
  file allocates. A new block is uninitialised until it is stored to.
\<close>

definition gpr_malloc :: "world \<Rightarrow> ptr \<times> world" where
  "gpr_malloc w = (fresh_ptr (blocks w), w\<lparr>blocks := (fresh_ptr (blocks w), None) # blocks w\<rparr>)"

definition store_secured_port :: "ptr \<Rightarrow> secured_port \<Rightarrow> world \<Rightarrow> fault + world" where
  "store_secured_port sp v w =
     (case map_of (blocks w) sp of
        None \<Rightarrow> Inl Invalid_pointer
      | Some old \<Rightarrow> Inr (w\<lparr>blocks := AList.update sp (Some v) (blocks w)\<rparr>))"

definition load_secured_port :: "ptr \<Rightarrow> world \<Rightarrow> fault + secured_port" where
  "load_secured_port sp w =
     (case map_of (blocks w) sp of
        None \<Rightarrow> Inl Invalid_pointer
      | Some None \<Rightarrow> Inl Invalid_pointer
      | Some (Some v) \<Rightarrow> Inr v)"

definition gpr_free :: "ptr \<Rightarrow> world \<Rightarrow> fault + world" where
  "gpr_free p w =
     (case map_of (blocks w) p of
        None \<Rightarrow> Inl Invalid_pointer
      | Some b \<Rightarrow> Inr (w\<lparr>blocks := AList.delete p (blocks w)\<rparr>))"

text \<open>
  Modelled from the spec: the owning server (server.h) exposes the registration of a
  listener with its start and destroy callbacks, its channel configuration, and the set-up
  of a channel over a transport with a list of extra filters.
\<close>

definition grpc_server_add_listener :: "ptr \<Rightarrow> ptr \<Rightarrow> fn \<Rightarrow> fn \<Rightarrow> world \<Rightarrow> world" where
  "grpc_server_add_listener server arg start_fn destroy_fn w =
     w\<lparr>listeners := listeners w @
         [\<lparr>l_server = server, l_arg = arg, l_start = start_fn, l_destroy = destroy_fn\<rparr>]\<rparr>"

definition grpc_server_get_channel_args :: "env \<Rightarrow> ptr \<Rightarrow> grpc_channel_args" where
  "grpc_server_get_channel_args env server = channel_args_of env server"

definition grpc_server_setup_transport ::
  "ptr \<Rightarrow> ptr \<Rightarrow> grpc_channel_filter list \<Rightarrow> nat \<Rightarrow> ptr \<Rightarrow> world \<Rightarrow> nat \<times> world" where
  "grpc_server_setup_transport server transport extra_filters num_extra_filters mdctx w =
     (length (channels w),
      w\<lparr>channels := channels w @
          [\<lparr>ch_server = server, ch_transport = transport,
            ch_extra_filters = take num_extra_filters extra_filters, ch_mdctx = mdctx\<rparr>]\<rparr>)"

text \<open>
  Modelled from the spec: \<open>grpc_mdctx_create\<close> returns a new metadata context, and
  \<open>grpc_create_chttp2_transport\<close> (chttp2\_transport.h) constructs a transport over the
  endpoint and hands it, with the metadata context, to the set-up callback.
\<close>

definition grpc_mdctx_create :: "world \<Rightarrow> ptr \<times> world" where
  "grpc_mdctx_create w = (fresh_ptr (mdctxs w), w\<lparr>mdctxs := (fresh_ptr (mdctxs w), ()) # mdctxs w\<rparr>)"

definition grpc_create_chttp2_transport ::
  "(ptr \<Rightarrow> ptr \<Rightarrow> ptr \<Rightarrow> world \<Rightarrow> nat \<times> world) \<Rightarrow> ptr \<Rightarrow> grpc_channel_args \<Rightarrow> ptr \<Rightarrow>
   nat \<Rightarrow> ptr \<Rightarrow> bool \<Rightarrow> world \<Rightarrow> world" where
  "grpc_create_chttp2_transport setup arg channel_args ep nslices mdctx is_client w =
     snd (setup arg (fresh_ptr (transports w)) mdctx
            (w\<lparr>transports :=
                 (fresh_ptr (transports w),
                  \<lparr>tr_endpoint = ep, tr_channel_args = channel_args, tr_nslices = nslices,
                   tr_mdctx = mdctx, tr_is_client = is_client\<rparr>) # transports w\<rparr>))"

section \<open>The functions of server\_secure\_chttp2.c\<close>

text \<open>Lines 50-57. \<open>GPR_ARRAY_SIZE\<close> is the number of elements of the array.\<close>

definition extra_filters :: "grpc_channel_filter list" where
  "extra_filters = [grpc_http_server_filter, grpc_http_filter]"

definition setup_transport :: "ptr \<Rightarrow> ptr \<Rightarrow> ptr \<Rightarrow> world \<Rightarrow> nat \<times> world" where
  "setup_transport server transport mdctx w =
     grpc_server_setup_transport server transport extra_filters (length extra_filters) mdctx w"

text \<open>Lines 59-69. The two arguments that call other functions are evaluated first.\<close>

definition on_secure_transport_setup_done ::
  "env \<Rightarrow> ptr \<Rightarrow> grpc_security_status \<Rightarrow> ptr \<Rightarrow> world \<Rightarrow> world" where
  "on_secure_transport_setup_done env server status secure_endpoint w =
     (if status = GRPC_SECURITY_OK
      then (case grpc_mdctx_create w of
              (mdctx, w1) \<Rightarrow>
                grpc_create_chttp2_transport setup_transport server
                  (grpc_server_get_channel_args env server) secure_endpoint 0 mdctx False w1)
      else gpr_log GPR_ERROR ''Secure transport failed with error %d'' [Arg_status status] w)"

text \<open>Lines 82-87: the server callback that starts listening.\<close>

definition start :: "ptr \<Rightarrow> ptr \<Rightarrow> ptr list \<Rightarrow> nat \<Rightarrow> world \<Rightarrow> fault + world" where
  "start server spp pollsets pollset_count w =
     and_then (load_secured_port spp w) (\<lambda>sp.
       grpc_tcp_server_start (sp_tcp sp) pollsets pollset_count Fn_on_accept spp w)"

text \<open>Lines 89-96: the server callback that destroys the tcp listener.\<close>

definition destroy :: "ptr \<Rightarrow> ptr \<Rightarrow> world \<Rightarrow> fault + world" where
  "destroy server spp w =
     and_then (load_secured_port spp w) (\<lambda>sp.
     and_then (grpc_tcp_server_destroy (sp_tcp sp) w) (\<lambda>w1.
     and_then (grpc_security_context_unref (sp_ctx sp) w1) (\<lambda>w2.
       gpr_free spp w2)))"

text \<open>
  Lines 98-189. The function leaves through \<open>return port_num\<close> (line 172) or through
  the label \<open>error\<close> (lines 175-188); the result records which, next to the returned
  \<open>int\<close> and the state.
\<close>

datatype exit_path = Return_port_num | Error_label

text \<open>Lines 175-188, with the locals \<open>ctx\<close>, \<open>resolved\<close>, \<open>tcp\<close> and \<open>sp\<close>.\<close>

definition error_exit ::
  "ptr option \<Rightarrow> ptr option \<Rightarrow> ptr option \<Rightarrow> ptr option \<Rightarrow> world \<Rightarrow>
   fault + (exit_path \<times> int \<times> world)" where
  "error_exit ctx resolved tcp sp w =
     and_then (case ctx of None \<Rightarrow> Inr w | Some c \<Rightarrow> grpc_security_context_unref ctx w) (\<lambda>w1.
     and_then (case resolved of None \<Rightarrow> Inr w1
               | Some r \<Rightarrow> grpc_resolved_addresses_destroy r w1) (\<lambda>w2.
     and_then (case tcp of None \<Rightarrow> Inr w2 | Some t \<Rightarrow> grpc_tcp_server_destroy t w2) (\<lambda>w3.
     and_then (case sp of None \<Rightarrow> Inr w3 | Some s \<Rightarrow> gpr_free s w3) (\<lambda>w4.
       Inr (Error_label, 0, w4)))))"

text \<open>Lines 109-119: the dispatch on the credential type; \<open>status\<close> starts as ERROR.\<close>

definition create_security_context ::
  "env \<Rightarrow> grpc_server_credentials \<Rightarrow> world \<Rightarrow> grpc_security_status \<times> ptr option \<times> world" where
  "create_security_context env creds w =
     (if creds_type creds = GRPC_CREDENTIALS_TYPE_SSL env
      then grpc_ssl_server_security_context_create env
             (grpc_ssl_server_credentials_get_config creds) w
      else if creds_type creds = GRPC_CREDENTIALS_TYPE_FAKE_TRANSPORT_SECURITY env
      then (case grpc_fake_server_security_context_create w of
              (c, w1) \<Rightarrow> (GRPC_SECURITY_OK, Some c, w1))
      else (GRPC_SECURITY_ERROR, None, w))"

text \<open>
  Lines 139-151: the loop over \<open>resolved->addrs\<close>, with the locals \<open>port_num\<close> (an
  \<open>int\<close>) and \<open>count\<close> (an \<open>unsigned\<close>, which wraps at \<open>2 ^ 32\<close>).
\<close>

fun bind_loop ::
  "env \<Rightarrow> ptr \<Rightarrow> sockaddr list \<Rightarrow> int \<Rightarrow> 32 word \<Rightarrow> world \<Rightarrow> fault + (int \<times> 32 word \<times> world)" where
  "bind_loop env tcp [] port_num count w = Inr (port_num, count, w)"
| "bind_loop env tcp (a # as) port_num count w =
     and_then (grpc_tcp_server_add_port env tcp a w) (\<lambda>(port_temp, w1).
       if 0 \<le> port_temp
       then (if port_num = - 1 then bind_loop env tcp as port_temp (count + 1) w1
             else if port_num = port_temp then bind_loop env tcp as port_num (count + 1) w1
             else Inl Assertion_failure)
       else bind_loop env tcp as port_num count w1)"

definition grpc_server_add_secure_http2_port ::
  "env \<Rightarrow> ptr \<Rightarrow> string \<Rightarrow> grpc_server_credentials option \<Rightarrow> world \<Rightarrow>
   fault + (exit_path \<times> int \<times> world)" where
  "grpc_server_add_secure_http2_port env server addr creds w =
     (case creds of
        None \<Rightarrow> error_exit None None None None w
      | Some c \<Rightarrow>
          (case create_security_context env c w of
             (status, ctx, w1) \<Rightarrow>
               if status \<noteq> GRPC_SECURITY_OK
               then error_exit ctx None None None
                      (gpr_log GPR_ERROR
                         ''Unable to create secure server with credentials of type %s.''
                         [Arg_str (creds_type c)] w1)
               else
                 (case grpc_blocking_resolve_address env addr ''https'' w1 of
                    (None, w2) \<Rightarrow> error_exit ctx None None None w2
                  | (Some resolved, w2) \<Rightarrow>
                      (case grpc_tcp_server_create env w2 of
                         (None, w3) \<Rightarrow> error_exit ctx (Some resolved) None None w3
                       | (Some tcp, w3) \<Rightarrow>
                           and_then (resolved_addrs resolved w3) (\<lambda>addrs.
                           and_then (bind_loop env tcp addrs (- 1) 0 w3) (\<lambda>(port_num, count, w4).
                             if count = 0
                             then error_exit ctx (Some resolved) (Some tcp) None
                                    (gpr_log GPR_ERROR
                                       ''No address added out of total %d resolved''
                                       [Arg_uint (length addrs)] w4)
                             else
                               and_then
                                 (grpc_resolved_addresses_destroy resolved
                                    (if unat count \<noteq> length addrs
                                     then gpr_log GPR_ERROR
                                            ''Only %d addresses added out of total %d resolved''
                                            [Arg_uint (unat count), Arg_uint (length addrs)] w4
                                     else w4)) (\<lambda>w6.
                               (case gpr_malloc w6 of
                                  (sp, w7) \<Rightarrow>
                                    and_then
                                      (store_secured_port sp
                                         \<lparr>sp_tcp = tcp, sp_ctx = ctx, sp_server = server\<rparr> w7) (\<lambda>w8.
                                      Inr (Return_port_num, port_num,
                                           grpc_server_add_listener server sp
                                             Fn_start Fn_destroy w8))))))))))"

section \<open>Notions used to state the properties\<close>

text \<open>
  The values returned by the successive binds of a list of addresses on a tcp server
  whose earlier binds are \<open>hist\<close>, and, for a new tcp server, the ports of the binds
  that succeeded, in order.
\<close>

fun bind_results :: "env \<Rightarrow> (sockaddr \<times> int) list \<Rightarrow> sockaddr list \<Rightarrow> int list" where
  "bind_results env hist [] = []"
| "bind_results env hist (a # as) =
     add_port_outcome env hist a #
     bind_results env (hist @ [(a, add_port_outcome env hist a)]) as"

definition bound_ports :: "env \<Rightarrow> sockaddr list \<Rightarrow> int list" where
  "bound_ports env addrs = filter (\<lambda>r. 0 \<le> r) (bind_results env [] addrs)"

text \<open>What the loop of lines 139-151 computes from the values the binds return.\<close>

fun scan_ports :: "int list \<Rightarrow> int \<Rightarrow> 32 word \<Rightarrow> (int \<times> 32 word) option" where
  "scan_ports [] port_num count = Some (port_num, count)"
| "scan_ports (port_temp # rs) port_num count =
     (if 0 \<le> port_temp
      then (if port_num = - 1 then scan_ports rs port_temp (count + 1)
            else if port_num = port_temp then scan_ports rs port_num (count + 1)
            else None)
      else scan_ports rs port_num count)"

text \<open>
  The call gets as far as binding: the credentials are not NULL, the security context is
  created with status OK, the address resolves to \<open>addrs\<close>, and the tcp server is
  created.
\<close>

definition reaches_binding ::
  "env \<Rightarrow> string \<Rightarrow> grpc_server_credentials option \<Rightarrow> world \<Rightarrow> sockaddr list \<Rightarrow> bool" where
  "reaches_binding env addr creds w addrs \<longleftrightarrow>
     (case creds of
        None \<Rightarrow> False
      | Some c \<Rightarrow> fst (create_security_context env c w) = GRPC_SECURITY_OK) \<and>
     resolve_outcome env addr ''https'' = Some addrs \<and>
     tcp_create_outcome env"

text \<open>
  The state after a successful call that started in \<open>w\<close>: the tcp server with its
  binds, the \<open>secured_port\<close> block, and the listener registered with the server.
\<close>

definition registered :: "ptr \<Rightarrow> ptr option \<Rightarrow> sockaddr list \<Rightarrow> int list \<Rightarrow> world \<Rightarrow> world" where
  "registered server ctx addrs rs w =
     w\<lparr>tcp_servers :=
         (fresh_ptr (tcp_servers w), \<lparr>attempts = zip addrs rs, accepting = None\<rparr>) # tcp_servers w,
       blocks :=
         (fresh_ptr (blocks w),
          Some \<lparr>sp_tcp = fresh_ptr (tcp_servers w), sp_ctx = ctx, sp_server = server\<rparr>) # blocks w,
       listeners := listeners w @
         [\<lparr>l_server = server, l_arg = fresh_ptr (blocks w), l_start = Fn_start,
           l_destroy = Fn_destroy\<rparr>]\<rparr>"

text \<open>
  A sample environment: the address ''localhost:443'' resolves to \<open>addrs\<close>, the
  successive binds on a tcp server return the elements of \<open>ports\<close>, and the SSL
  constructor accepts the configuration ''valid'' and fails on any other, after storing a
  context for ''bad key''. With it, sample credentials and the state with nothing
  allocated.
\<close>

definition example_env :: "sockaddr list \<Rightarrow> int list \<Rightarrow> env" where
  "example_env addrs ports =
     \<lparr>GRPC_CREDENTIALS_TYPE_SSL = ''Ssl'',
      GRPC_CREDENTIALS_TYPE_FAKE_TRANSPORT_SECURITY = ''FakeTransportSecurity'',
      ssl_context_outcome =
        (\<lambda>config. if config = ''valid'' then (GRPC_SECURITY_OK, True)
                   else if config = ''bad key'' then (GRPC_SECURITY_ERROR, True)
                   else (GRPC_SECURITY_ERROR, False)),
      resolve_outcome =
        (\<lambda>addr default_port. if addr = ''localhost:443'' then Some addrs else None),
      tcp_create_outcome = True,
      add_port_outcome =
        (\<lambda>hist a. if length hist < length ports then ports ! length hist else - 1),
      channel_args_of = (\<lambda>server. [])\<rparr>"

definition fake_creds :: grpc_server_credentials where
  "fake_creds = \<lparr>creds_type = ''FakeTransportSecurity'', creds_config = []\<rparr>"

definition ssl_creds :: "ssl_config \<Rightarrow> grpc_server_credentials" where
  "ssl_creds config = \<lparr>creds_type = ''Ssl'', creds_config = config\<rparr>"

definition empty_world :: world where
  "empty_world =
     \<lparr>contexts = [], resolved_sets = [], tcp_servers = [], blocks = [], mdctxs = [],
      transports = [], channels = [], listeners = [], log_entries = []\<rparr>"

text \<open>The exit taken and the value returned by a call that returns.\<close>

definition exit_and_value :: "fault + (exit_path \<times> int \<times> world) \<Rightarrow> (exit_path \<times> int) option" where
  "exit_and_value res = (case res of Inl f \<Rightarrow> None | Inr (ex, r, w) \<Rightarrow> Some (ex, r))"

text \<open>
  A resolved address set of \<open>2 ^ 32 + 1\<close> addresses of which all but the last bind,
  on the same port.
\<close>

definition many_addrs :: "sockaddr list" where
  "many_addrs = replicate (Suc (2 ^ 32)) [1]"

definition many_ports :: "int list" where
  "many_ports = replicate (2 ^ 32) 443 @ [- 1]"

section \<open>Auxiliary lemmas\<close>

lemma and_then_Inr: "and_then (Inr x) f = f x"
  by (simp add: and_then_def)

lemma top_ptr_ge: "e \<in> set h \<Longrightarrow> fst e \<le> top_ptr h"
  by (induction h) auto

lemma fresh_ptr_new: "fresh_ptr h \<notin> fst ` set h"
proof
  assume "fresh_ptr h \<in> fst ` set h"
  then obtain e where "e \<in> set h" "fst e = fresh_ptr h" by auto
  with top_ptr_ge [of e h] show False by (simp add: fresh_ptr_def)
qed

lemma delete_fresh: "AList.delete (fresh_ptr h) h = h"
  using fresh_ptr_new [of h] by simp

lemma bind_loop_scan:
  "tcp_servers w = (tcp, t) # h \<Longrightarrow>
   bind_loop env tcp addrs port_num count w =
     (case scan_ports (bind_results env (attempts t) addrs) port_num count of
        None \<Rightarrow> Inl Assertion_failure
      | Some (p, c) \<Rightarrow>
          Inr (p, c, w\<lparr>tcp_servers :=
                 (tcp, t\<lparr>attempts := attempts t @ zip addrs (bind_results env (attempts t) addrs)\<rparr>) # h\<rparr>))"
proof (induction addrs arbitrary: w t port_num count)
  case Nil
  then show ?case by simp
next
  case (Cons a as)
  let ?r = "add_port_outcome env (attempts t) a"
  let ?t1 = "t\<lparr>attempts := attempts t @ [(a, ?r)]\<rparr>"
  let ?w1 = "w\<lparr>tcp_servers := (tcp, ?t1) # h\<rparr>"
  have step: "grpc_tcp_server_add_port env tcp a w = Inr (?r, ?w1)"
    using Cons.prems by (simp add: grpc_tcp_server_add_port_def)
  have w1: "tcp_servers ?w1 = (tcp, ?t1) # h" by simp
  note IH = Cons.IH [OF w1]
  show ?case
    by (simp add: step and_then_def IH split: option.splits)
qed

lemma scan_ports_set:
  "0 \<le> p \<Longrightarrow>
   scan_ports rs p c =
     (if \<forall>r \<in> set (filter (\<lambda>r. 0 \<le> r) rs). r = p
      then Some (p, c + of_nat (length (filter (\<lambda>r. 0 \<le> r) rs))) else None)"
  by (induction rs arbitrary: c) auto

lemma scan_ports_unset:
  "scan_ports rs (- 1) c =
     (case filter (\<lambda>r. 0 \<le> r) rs of
        [] \<Rightarrow> Some (- 1, c)
      | r # rest \<Rightarrow>
          if \<forall>x \<in> set rest. x = r then Some (r, c + of_nat (Suc (length rest))) else None)"
  by (induction rs arbitrary: c) (auto simp: scan_ports_set)

lemma create_security_context_cases:
  "create_security_context env c w = (st, ctx, w1) \<Longrightarrow>
   ctx = None \<and> w1 = w \<or>
   ctx = Some (fresh_ptr (contexts w)) \<and>
     w1 = w\<lparr>contexts := (fresh_ptr (contexts w), 1) # contexts w\<rparr>"
  by (auto simp: create_security_context_def grpc_ssl_server_security_context_create_def
        grpc_fake_server_security_context_create_def split: if_splits prod.splits)

lemma create_security_context_status:
  "fst (create_security_context env c w) =
     (if creds_type c = GRPC_CREDENTIALS_TYPE_SSL env
      then fst (ssl_context_outcome env (creds_config c))
      else if creds_type c = GRPC_CREDENTIALS_TYPE_FAKE_TRANSPORT_SECURITY env
      then GRPC_SECURITY_OK else GRPC_SECURITY_ERROR)"
  by (simp add: create_security_context_def grpc_ssl_server_security_context_create_def
        grpc_fake_server_security_context_create_def grpc_ssl_server_credentials_get_config_def
        split: prod.splits)

lemma error_exit_releases:
  assumes "ctx = None \<and> contexts w1 = cs \<or>
           ctx = Some (fresh_ptr cs) \<and> contexts w1 = (fresh_ptr cs, 1) # cs"
    and "resolved = None \<and> resolved_sets w1 = rs \<or>
         resolved = Some (fresh_ptr rs) \<and> resolved_sets w1 = (fresh_ptr rs, as) # rs"
    and "tcp = None \<and> tcp_servers w1 = ts \<or>
         tcp = Some (fresh_ptr ts) \<and> tcp_servers w1 = (fresh_ptr ts, t) # ts"
  shows "error_exit ctx resolved tcp None w1 =
           Inr (Error_label, 0, w1\<lparr>contexts := cs, resolved_sets := rs, tcp_servers := ts\<rparr>)"
proof -
  obtain w2 where c: "(case ctx of None \<Rightarrow> Inr w1 | Some c \<Rightarrow> grpc_security_context_unref ctx w1) = Inr w2"
    and w2: "w2 = w1\<lparr>contexts := cs\<rparr>"
    using assms(1) by (auto simp: grpc_security_context_unref_def delete_fresh)
  obtain w3 where r: "(case resolved of None \<Rightarrow> Inr w2 | Some r \<Rightarrow> grpc_resolved_addresses_destroy r w2) = Inr w3"
    and w3: "w3 = w2\<lparr>resolved_sets := rs\<rparr>"
    using assms(2) w2 by (auto simp: grpc_resolved_addresses_destroy_def delete_fresh)
  obtain w4 where t: "(case tcp of None \<Rightarrow> Inr w3 | Some t \<Rightarrow> grpc_tcp_server_destroy t w3) = Inr w4"
    and w4: "w4 = w3\<lparr>tcp_servers := ts\<rparr>"
    using assms(3) w2 w3 by (auto simp: grpc_tcp_server_destroy_def delete_fresh)
  have "error_exit ctx resolved tcp None w1 = Inr (Error_label, 0, w4)"
    unfolding error_exit_def by (simp add: c r t and_then_def)
  then show ?thesis by (simp add: w2 w3 w4)
qed

lemma add_port_unfold:
  assumes csc: "create_security_context env c w = (st, ctx, w1)"
  shows "grpc_server_add_secure_http2_port env server addr (Some c) w =
     (if st \<noteq> GRPC_SECURITY_OK
      then Inr (Error_label, 0,
             gpr_log GPR_ERROR ''Unable to create secure server with credentials of type %s.''
               [Arg_str (creds_type c)] w)
      else
        (case resolve_outcome env addr ''https'' of
           None \<Rightarrow> Inr (Error_label, 0, w)
         | Some addrs \<Rightarrow>
             if \<not> tcp_create_outcome env then Inr (Error_label, 0, w)
             else
               (case scan_ports (bind_results env [] addrs) (- 1) 0 of
                  None \<Rightarrow> Inl Assertion_failure
                | Some (p, n) \<Rightarrow>
                    if n = 0
                    then Inr (Error_label, 0,
                           gpr_log GPR_ERROR ''No address added out of total %d resolved''
                             [Arg_uint (length addrs)] w)
                    else Inr (Return_port_num, p,
                           registered server ctx addrs (bind_results env [] addrs)
                             (if unat n \<noteq> length addrs
                              then gpr_log GPR_ERROR
                                     ''Only %d addresses added out of total %d resolved''
                                     [Arg_uint (unat n), Arg_uint (length addrs)] w1
                              else w1)))))"
proof -
  note cases = create_security_context_cases [OF csc]
  show ?thesis
  proof (cases "st = GRPC_SECURITY_OK")
    case False
    have "error_exit ctx None None None
            (gpr_log GPR_ERROR ''Unable to create secure server with credentials of type %s.''
               [Arg_str (creds_type c)] w1) =
          Inr (Error_label, 0,
            gpr_log GPR_ERROR ''Unable to create secure server with credentials of type %s.''
               [Arg_str (creds_type c)] w)"
      using cases
      by (subst error_exit_releases [where cs = "contexts w" and rs = "resolved_sets w"
              and ts = "tcp_servers w"]) (auto simp: gpr_log_def)
    with False show ?thesis
      by (simp add: grpc_server_add_secure_http2_port_def csc)
  next
    case True
    have res_w1: "resolved_sets w1 = resolved_sets w" and tcp_w1: "tcp_servers w1 = tcp_servers w"
      and blk_w1: "blocks w1 = blocks w" and lst_w1: "listeners w1 = listeners w"
      using cases by auto
    show ?thesis
    proof (cases "resolve_outcome env addr ''https''")
      case None
      have "error_exit ctx None None None w1 = Inr (Error_label, 0, w)"
        using cases
        by (subst error_exit_releases [where cs = "contexts w" and rs = "resolved_sets w"
                and ts = "tcp_servers w"]) auto
      with True None show ?thesis
        by (simp add: grpc_server_add_secure_http2_port_def csc grpc_blocking_resolve_address_def)
    next
      case (Some addrs)
      define rp where "rp = fresh_ptr (resolved_sets w)"
      define w2 where "w2 = w1\<lparr>resolved_sets := (rp, addrs) # resolved_sets w\<rparr>"
      have resolve: "grpc_blocking_resolve_address env addr ''https'' w1 = (Some rp, w2)"
        by (simp add: grpc_blocking_resolve_address_def Some rp_def w2_def res_w1)
      show ?thesis
      proof (cases "tcp_create_outcome env")
        case False
        have "error_exit ctx (Some rp) None None w2 = Inr (Error_label, 0, w)"
          using cases
          by (subst error_exit_releases [where cs = "contexts w" and rs = "resolved_sets w"
                  and ts = "tcp_servers w" and as = addrs]) (auto simp: w2_def rp_def)
        with True Some False show ?thesis
          by (simp add: grpc_server_add_secure_http2_port_def csc resolve
                grpc_tcp_server_create_def)
      next
        case tcp_ok: True
        define tp where "tp = fresh_ptr (tcp_servers w)"
        define w3 where
          "w3 = w2\<lparr>tcp_servers := (tp, \<lparr>attempts = [], accepting = None\<rparr>) # tcp_servers w\<rparr>"
        define rs where "rs = bind_results env [] addrs"
        define w4 where
          "w4 = w3\<lparr>tcp_servers :=
                   (tp, \<lparr>attempts = zip addrs rs, accepting = None\<rparr>) # tcp_servers w\<rparr>"
        have create: "grpc_tcp_server_create env w2 = (Some tp, w3)"
          by (simp add: grpc_tcp_server_create_def tcp_ok tp_def w3_def w2_def tcp_w1)
        have addrs: "resolved_addrs rp w3 = Inr addrs"
          by (simp add: resolved_addrs_def w3_def w2_def)
        have loop: "bind_loop env tp addrs (- 1) 0 w3 =
                      (case scan_ports rs (- 1) 0 of
                         None \<Rightarrow> Inl Assertion_failure
                       | Some (p, n) \<Rightarrow> Inr (p, n, w4))"
          using bind_loop_scan [of w3 tp "\<lparr>attempts = [], accepting = None\<rparr>"
                  "tcp_servers w" env addrs "- 1" 0]
          by (simp add: w3_def w4_def rs_def split: option.splits)
        have start: "grpc_server_add_secure_http2_port env server addr (Some c) w =
              and_then (bind_loop env tp addrs (- 1) 0 w3) (\<lambda>(port_num, count, w4).
                             if count = 0
                             then error_exit ctx (Some rp) (Some tp) None
                                    (gpr_log GPR_ERROR
                                       ''No address added out of total %d resolved''
                                       [Arg_uint (length addrs)] w4)
                             else
                               and_then
                                 (grpc_resolved_addresses_destroy rp
                                    (if unat count \<noteq> length addrs
                                     then gpr_log GPR_ERROR
                                            ''Only %d addresses added out of total %d resolved''
                                            [Arg_uint (unat count), Arg_uint (length addrs)] w4
                                     else w4)) (\<lambda>w6.
                               (case gpr_malloc w6 of
                                  (sp, w7) \<Rightarrow>
                                    and_then
                                      (store_secured_port sp
                                         \<lparr>sp_tcp = tp, sp_ctx = ctx, sp_server = server\<rparr> w7) (\<lambda>w8.
                                      Inr (Return_port_num, port_num,
                                           grpc_server_add_listener server sp
                                             Fn_start Fn_destroy w8)))))"
          using True
          by (simp add: grpc_server_add_secure_http2_port_def csc resolve create addrs and_then_def)
        show ?thesis
        proof (cases "scan_ports rs (- 1) 0")
          case None
          with start loop Some tcp_ok True show ?thesis
            by (simp add: and_then_def rs_def)
        next
          case scanned: (Some pn)
          obtain p n where pn: "pn = (p, n)" by (cases pn)
          show ?thesis
          proof (cases "n = 0")
            case zero: True
            have "error_exit ctx (Some rp) (Some tp) None
                    (gpr_log GPR_ERROR ''No address added out of total %d resolved''
                       [Arg_uint (length addrs)] w4) =
                  Inr (Error_label, 0,
                    gpr_log GPR_ERROR ''No address added out of total %d resolved''
                       [Arg_uint (length addrs)] w)"
              using cases
              by (subst error_exit_releases [where cs = "contexts w" and rs = "resolved_sets w"
                      and ts = "tcp_servers w" and as = addrs
                      and t = "\<lparr>attempts = zip addrs rs, accepting = None\<rparr>"])
                 (auto simp: gpr_log_def w4_def w3_def w2_def rp_def tp_def)
            with start loop Some tcp_ok True scanned pn zero show ?thesis
              by (simp add: and_then_def rs_def)
          next
            case nonzero: False
            define w5 where
              "w5 = (if unat n \<noteq> length addrs
                     then gpr_log GPR_ERROR ''Only %d addresses added out of total %d resolved''
                            [Arg_uint (unat n), Arg_uint (length addrs)] w4
                     else w4)"
            define w5' where
              "w5' = (if unat n \<noteq> length addrs
                     then gpr_log GPR_ERROR ''Only %d addresses added out of total %d resolved''
                            [Arg_uint (unat n), Arg_uint (length addrs)] w1
                     else w1)"
            have destroy: "grpc_resolved_addresses_destroy rp w5 =
                             Inr (w5\<lparr>resolved_sets := resolved_sets w\<rparr>)"
              by (simp add: grpc_resolved_addresses_destroy_def w5_def gpr_log_def w4_def w3_def
                    w2_def rp_def delete_fresh)
            have final: "(case gpr_malloc (w5\<lparr>resolved_sets := resolved_sets w\<rparr>) of
                            (sp, w7) \<Rightarrow>
                              and_then
                                (store_secured_port sp
                                   \<lparr>sp_tcp = tp, sp_ctx = ctx, sp_server = server\<rparr> w7) (\<lambda>w8.
                                Inr (Return_port_num, p,
                                     grpc_server_add_listener server sp Fn_start Fn_destroy w8))) =
                         Inr (Return_port_num, p, registered server ctx addrs rs w5')"
              by (simp add: gpr_malloc_def store_secured_port_def and_then_def
                    grpc_server_add_listener_def registered_def w5_def w5'_def gpr_log_def
                    w4_def w3_def w2_def tp_def blk_w1 lst_w1 tcp_w1 res_w1)
            have "grpc_server_add_secure_http2_port env server addr (Some c) w =
                    and_then (grpc_resolved_addresses_destroy rp w5) (\<lambda>w6.
                      (case gpr_malloc w6 of
                         (sp, w7) \<Rightarrow>
                           and_then
                             (store_secured_port sp
                                \<lparr>sp_tcp = tp, sp_ctx = ctx, sp_server = server\<rparr> w7) (\<lambda>w8.
                             Inr (Return_port_num, p,
                                  grpc_server_add_listener server sp Fn_start Fn_destroy w8))))"
              using nonzero
              by (simp add: start loop scanned pn and_then_def w5_def split del: if_split)
            also have "\<dots> = Inr (Return_port_num, p, registered server ctx addrs rs w5')"
              by (simp only: destroy and_then_Inr final)
            finally have run:
              "grpc_server_add_secure_http2_port env server addr (Some c) w =
                 Inr (Return_port_num, p, registered server ctx addrs rs w5')" .
            show ?thesis
              using nonzero scanned
              by (simp add: run True Some tcp_ok pn rs_def [symmetric] w5'_def
                    split del: if_split)
          qed
        qed
      qed
    qed
  qed
qed


lemma add_port_null: "grpc_server_add_secure_http2_port env server addr None w = Inr (Error_label, 0, w)"
  by (simp add: grpc_server_add_secure_http2_port_def error_exit_def and_then_def)

lemma add_port_binding:
  assumes "reaches_binding env addr (Some c) w addrs"
  shows "grpc_server_add_secure_http2_port env server addr (Some c) w =
     (case bound_ports env addrs of
        [] \<Rightarrow> Inr (Error_label, 0,
                gpr_log GPR_ERROR ''No address added out of total %d resolved''
                  [Arg_uint (length addrs)] w)
      | r # rest \<Rightarrow>
          if \<forall>x \<in> set rest. x = r
          then (if (of_nat (Suc (length rest)) :: 32 word) = 0
                then Inr (Error_label, 0,
                       gpr_log GPR_ERROR ''No address added out of total %d resolved''
                         [Arg_uint (length addrs)] w)
                else Inr (Return_port_num, r,
                       registered server (fst (snd (create_security_context env c w))) addrs
                         (bind_results env [] addrs)
                         (if unat (of_nat (Suc (length rest)) :: 32 word) \<noteq> length addrs
                          then gpr_log GPR_ERROR
                                 ''Only %d addresses added out of total %d resolved''
                                 [Arg_uint (unat (of_nat (Suc (length rest)) :: 32 word)),
                                  Arg_uint (length addrs)]
                                 (snd (snd (create_security_context env c w)))
                          else snd (snd (create_security_context env c w)))))
          else Inl Assertion_failure)"
proof -
  obtain st ctx w1 where csc: "create_security_context env c w = (st, ctx, w1)"
    by (cases "create_security_context env c w") auto
  from assms have st: "st = GRPC_SECURITY_OK"
    and res: "resolve_outcome env addr ''https'' = Some addrs"
    and tcp: "tcp_create_outcome env"
    by (simp_all add: reaches_binding_def csc)
  show ?thesis
    by (simp add: add_port_unfold [OF csc] st res tcp scan_ports_unset bound_ports_def csc
          split: list.splits)
qed

lemmas example_defs =
  example_env_def fake_creds_def ssl_creds_def empty_world_def reaches_binding_def
  bound_ports_def create_security_context_def grpc_fake_server_security_context_create_def
  grpc_ssl_server_security_context_create_def grpc_ssl_server_credentials_get_config_def

lemma count_word_zero: "n < 2 ^ 32 \<Longrightarrow> (of_nat n :: 32 word) = 0 \<longleftrightarrow> n = 0"
  by (simp flip: unat_eq_0) (simp add: unat_of_nat)

lemma count_word_unat: "n < 2 ^ 32 \<Longrightarrow> unat (of_nat n :: 32 word) = n"
  by (simp add: unat_of_nat)

lemma add_port_stages:
  "creds = None \<and>
     grpc_server_add_secure_http2_port env server addr creds w = Inr (Error_label, 0, w) \<or>
   (\<exists>c. creds = Some c \<and> fst (create_security_context env c w) \<noteq> GRPC_SECURITY_OK \<and>
     grpc_server_add_secure_http2_port env server addr creds w =
       Inr (Error_label, 0,
            gpr_log GPR_ERROR ''Unable to create secure server with credentials of type %s.''
              [Arg_str (creds_type c)] w)) \<or>
   (\<exists>c. creds = Some c \<and> fst (create_security_context env c w) = GRPC_SECURITY_OK \<and>
     (resolve_outcome env addr ''https'' = None \<or> \<not> tcp_create_outcome env) \<and>
     grpc_server_add_secure_http2_port env server addr creds w = Inr (Error_label, 0, w)) \<or>
   (\<exists>addrs. reaches_binding env addr creds w addrs)"
proof (cases creds)
  case None
  then show ?thesis by (simp add: add_port_null)
next
  case (Some c)
  obtain st ctx w1 where csc: "create_security_context env c w = (st, ctx, w1)"
    by (cases "create_security_context env c w") auto
  show ?thesis
    using add_port_unfold [OF csc, of server addr]
    by (cases "resolve_outcome env addr ''https''")
       (auto simp: Some csc reaches_binding_def)
qed

lemma listeners_registered:
  "listeners (registered server ctx addrs rs w) =
     listeners w @ [\<lparr>l_server = server, l_arg = fresh_ptr (blocks w), l_start = Fn_start,
                     l_destroy = Fn_destroy\<rparr>]"
  by (simp add: registered_def)

lemma create_security_context_frame:
  "resolved_sets (snd (snd (create_security_context env c w))) = resolved_sets w \<and>
   tcp_servers (snd (snd (create_security_context env c w))) = tcp_servers w \<and>
   blocks (snd (snd (create_security_context env c w))) = blocks w \<and>
   listeners (snd (snd (create_security_context env c w))) = listeners w \<and>
   log_entries (snd (snd (create_security_context env c w))) = log_entries w"
proof -
  obtain st ctx w1 where csc: "create_security_context env c w = (st, ctx, w1)"
    by (cases "create_security_context env c w") auto
  from create_security_context_cases [OF csc] show ?thesis by (auto simp: csc)
qed

lemma add_port_error:
  assumes "grpc_server_add_secure_http2_port env server addr creds w = Inr (Error_label, r, w')"
  shows "r = 0 \<and> contexts w' = contexts w \<and> resolved_sets w' = resolved_sets w \<and>
         tcp_servers w' = tcp_servers w \<and> blocks w' = blocks w \<and> listeners w' = listeners w"
proof -
  from add_port_stages [of creds env server addr w]
  consider "r = 0 \<and> (w' = w \<or> (\<exists>s f as. w' = gpr_log s f as w))"
    | c addrs where "creds = Some c" "reaches_binding env addr (Some c) w addrs"
    using assms by (cases creds) (auto simp: reaches_binding_def)
  then show ?thesis
  proof cases
    case 1
    then show ?thesis by (auto simp: gpr_log_def)
  next
    case 2
    from add_port_binding [OF 2(2), of server] assms 2(1) show ?thesis
      by (auto simp: gpr_log_def split: list.splits if_splits)
  qed
qed

lemma add_port_return:
  assumes "grpc_server_add_secure_http2_port env server addr creds w = Inr (Return_port_num, r, w')"
  shows "\<exists>addrs. reaches_binding env addr creds w addrs \<and> bound_ports env addrs \<noteq> [] \<and>
           r = hd (bound_ports env addrs) \<and> (\<forall>p \<in> set (bound_ports env addrs). p = r) \<and>
           listeners w' = listeners w @
             [\<lparr>l_server = server, l_arg = fresh_ptr (blocks w), l_start = Fn_start,
               l_destroy = Fn_destroy\<rparr>]"
proof -
  from add_port_stages [of creds env server addr w] assms
  obtain addrs where rb: "reaches_binding env addr creds w addrs" by auto
  then obtain c where c: "creds = Some c"
    by (cases creds) (simp_all add: reaches_binding_def)
  note frame = create_security_context_frame [of env c w]
  from add_port_binding [OF rb [unfolded c], of server] assms c
  have "bound_ports env addrs \<noteq> [] \<and>
           r = hd (bound_ports env addrs) \<and> (\<forall>p \<in> set (bound_ports env addrs). p = r) \<and>
           listeners w' = listeners w @
             [\<lparr>l_server = server, l_arg = fresh_ptr (blocks w), l_start = Fn_start,
               l_destroy = Fn_destroy\<rparr>]"
    by (auto simp: listeners_registered frame gpr_log_def split: list.splits if_splits)
  with rb show ?thesis by blast
qed

lemma bound_ports_nonneg: "p \<in> set (bound_ports env addrs) \<Longrightarrow> 0 \<le> p"
  by (simp add: bound_ports_def)

lemma add_port_no_invalid_pointer:
  "grpc_server_add_secure_http2_port env server addr creds w \<noteq> Inl Invalid_pointer"
proof -
  from add_port_stages [of creds env server addr w]
  consider "\<exists>x. grpc_server_add_secure_http2_port env server addr creds w = Inr x"
    | c addrs where "creds = Some c" "reaches_binding env addr (Some c) w addrs"
    by (cases creds) (auto simp: reaches_binding_def)
  then show ?thesis
  proof cases
    case 1
    then show ?thesis by auto
  next
    case 2
    from add_port_binding [OF 2(2), of server] 2(1) show ?thesis
      by (auto split: list.splits if_splits)
  qed
qed

lemma reaches_binding_addrs:
  "reaches_binding env addr creds w addrs \<Longrightarrow> reaches_binding env addr creds w addrs' \<Longrightarrow>
   addrs' = addrs"
  by (simp add: reaches_binding_def)

lemma setup_done_ok:
  "on_secure_transport_setup_done env server GRPC_SECURITY_OK ep w =
     w\<lparr>mdctxs := (fresh_ptr (mdctxs w), ()) # mdctxs w,
       transports :=
         (fresh_ptr (transports w),
          \<lparr>tr_endpoint = ep, tr_channel_args = channel_args_of env server, tr_nslices = 0,
           tr_mdctx = fresh_ptr (mdctxs w), tr_is_client = False\<rparr>) # transports w,
       channels := channels w @
         [\<lparr>ch_server = server, ch_transport = fresh_ptr (transports w),
           ch_extra_filters = [grpc_http_server_filter, grpc_http_filter],
           ch_mdctx = fresh_ptr (mdctxs w)\<rparr>]\<rparr>"
  by (simp add: on_secure_transport_setup_done_def grpc_mdctx_create_def
        grpc_create_chttp2_transport_def setup_transport_def grpc_server_setup_transport_def
        grpc_server_get_channel_args_def extra_filters_def)

lemma setup_done_failed:
  "status \<noteq> GRPC_SECURITY_OK \<Longrightarrow>
   on_secure_transport_setup_done env server status ep w =
     w\<lparr>log_entries := log_entries w @
         [\<lparr>severity = GPR_ERROR, format = ''Secure transport failed with error %d'',
           args = [Arg_status status]\<rparr>]\<rparr>"
  by (simp add: on_secure_transport_setup_done_def gpr_log_def)

text \<open>The binds of the sample environment, and a run in which \<open>count\<close> wraps to 0.\<close>

lemma bind_results_example:
  "length hist + length xs \<le> length ports \<Longrightarrow>
   bind_results (example_env as ports) hist xs = take (length xs) (drop (length hist) ports)"
proof (induction xs arbitrary: hist)
  case Nil
  then show ?case by simp
next
  case (Cons x xs)
  from Cons.prems have i: "length hist < length ports" by simp
  have out: "add_port_outcome (example_env as ports) hist x = ports ! length hist"
    using i by (simp add: example_env_def)
  have "bind_results (example_env as ports) (hist @ [(x, ports ! length hist)]) xs =
          take (length xs) (drop (Suc (length hist)) ports)"
    using Cons.IH [of "hist @ [(x, ports ! length hist)]"] Cons.prems by simp
  then show ?case
    using i by (simp add: out flip: Cons_nth_drop_Suc)
qed

lemma bound_ports_example:
  "length xs = length ports \<Longrightarrow>
   bound_ports (example_env as ports) xs = filter (\<lambda>r. 0 \<le> r) ports"
  using bind_results_example [of "[]" xs ports as] by (simp add: bound_ports_def)

lemma count_wraps_to_failure:
  assumes "0 < n" and "2 ^ 32 dvd n" and "0 \<le> p"
  shows "grpc_server_add_secure_http2_port
           (example_env (replicate (Suc n) a) (replicate n p @ [- 1])) server ''localhost:443''
           (Some fake_creds) w =
         Inr (Error_label, 0,
              gpr_log GPR_ERROR ''No address added out of total %d resolved''
                [Arg_uint (Suc n)] w)"
proof -
  let ?env = "example_env (replicate (Suc n) a) (replicate n p @ [- 1])"
  have r: "reaches_binding ?env ''localhost:443'' (Some fake_creds) w (replicate (Suc n) a)"
    by (simp add: reaches_binding_def create_security_context_status example_env_def
          fake_creds_def)
  from assms(1) obtain m where n: "n = Suc m" by (cases n) simp_all
  have b: "bound_ports ?env (replicate (Suc n) a) = p # replicate m p"
    using assms(3) by (subst bound_ports_example) (simp_all add: n)
  have "2 ^ LENGTH(32) dvd Suc m"
    using assms(2) by (simp add: n)
  then have zero: "(of_nat (Suc m) :: 32 word) = 0"
    by (rule word_of_nat_eq_0_iff [THEN iffD2])
  have same: "(\<forall>x \<in> set (replicate m p). x = p) = True"
    by simp
  show ?thesis
    by (simp only: add_port_binding [OF r] b list.case same zero if_True length_replicate
          simp_thms)
qed

section \<open>Properties\<close>

text \<open>
  C1: a call that leaves through the error label leaves the security contexts, the
  resolved address sets, the tcp servers and the allocated blocks exactly as it found
  them, and registers nothing; a listener is registered only by a call that leaves through
  \<open>return port_num\<close>. No release acts on a pointer that is not live. Each of the
  failures (NULL credentials, a context that is not created with status OK, an address
  that does not resolve, a tcp server that is not created, no address bound) makes the
  call leave through the error label and return 0.
\<close>

theorem failure_releases_every_resource:
  "(\<forall>ex r w'. grpc_server_add_secure_http2_port env server addr creds w = Inr (ex, r, w') \<longrightarrow>
      (ex = Error_label \<longrightarrow>
         contexts w' = contexts w \<and> resolved_sets w' = resolved_sets w \<and>
         tcp_servers w' = tcp_servers w \<and> blocks w' = blocks w \<and>
         listeners w' = listeners w) \<and>
      (listeners w' \<noteq> listeners w \<longrightarrow> ex = Return_port_num)) \<and>
   grpc_server_add_secure_http2_port env server addr creds w \<noteq> Inl Invalid_pointer \<and>
   (creds = None \<or>
    (case creds of None \<Rightarrow> False
     | Some c \<Rightarrow> fst (create_security_context env c w) \<noteq> GRPC_SECURITY_OK) \<or>
    resolve_outcome env addr ''https'' = None \<or>
    \<not> tcp_create_outcome env \<or>
    (case resolve_outcome env addr ''https'' of None \<Rightarrow> False
     | Some addrs \<Rightarrow> bound_ports env addrs = []) \<longrightarrow>
    (\<exists>w'. grpc_server_add_secure_http2_port env server addr creds w = Inr (Error_label, 0, w')))"
proof -
  have released: "contexts w' = contexts w \<and> resolved_sets w' = resolved_sets w \<and>
         tcp_servers w' = tcp_servers w \<and> blocks w' = blocks w \<and> listeners w' = listeners w"
    if "grpc_server_add_secure_http2_port env server addr creds w = Inr (Error_label, r, w')"
    for r w'
    using add_port_error [OF that] by simp
  have only_success: "ex = Return_port_num"
    if "grpc_server_add_secure_http2_port env server addr creds w = Inr (ex, r, w')"
      and "listeners w' \<noteq> listeners w"
    for ex r w'
    using that released [of r w'] by (cases ex) simp_all
  have stages: "\<exists>w'. grpc_server_add_secure_http2_port env server addr creds w = Inr (Error_label, 0, w')"
    if fails: "creds = None \<or>
      (case creds of None \<Rightarrow> False
       | Some c \<Rightarrow> fst (create_security_context env c w) \<noteq> GRPC_SECURITY_OK) \<or>
      resolve_outcome env addr ''https'' = None \<or>
      \<not> tcp_create_outcome env \<or>
      (case resolve_outcome env addr ''https'' of None \<Rightarrow> False
       | Some addrs \<Rightarrow> bound_ports env addrs = [])"
  proof -
    from add_port_stages [of creds env server addr w]
    consider "\<exists>w'. grpc_server_add_secure_http2_port env server addr creds w = Inr (Error_label, 0, w')"
      | addrs where "reaches_binding env addr creds w addrs"
      by auto
    then show ?thesis
    proof cases
      case 1
      then show ?thesis .
    next
      case 2
      then obtain c where c: "creds = Some c"
        by (cases creds) (simp_all add: reaches_binding_def)
      from 2 fails have "bound_ports env addrs = []"
        by (auto simp: reaches_binding_def c)
      with add_port_binding [OF 2 [unfolded c], of server] show ?thesis
        by (simp add: c)
    qed
  qed
  from released only_success stages add_port_no_invalid_pointer [of env server addr creds w]
  show ?thesis by blast
qed

theorem failure_releases_every_resource_witness:
  "\<exists>w'. grpc_server_add_secure_http2_port (example_env [[1], [2]] [- 1, - 1]) 7 ''localhost:443''
          (Some (ssl_creds ''valid'')) empty_world = Inr (Error_label, 0, w') \<and>
        contexts w' = [] \<and> resolved_sets w' = [] \<and> tcp_servers w' = [] \<and> blocks w' = [] \<and>
        listeners w' = []"
proof -
  note inst = failure_releases_every_resource [of "example_env [[1], [2]] [- 1, - 1]" 7
      "''localhost:443''" "Some (ssl_creds ''valid'')" empty_world]
  have "case resolve_outcome (example_env [[1], [2]] [- 1, - 1]) ''localhost:443'' ''https'' of
          None \<Rightarrow> False
        | Some addrs \<Rightarrow> bound_ports (example_env [[1], [2]] [- 1, - 1]) addrs = []"
    by (simp add: example_defs)
  with inst obtain w' where run:
    "grpc_server_add_secure_http2_port (example_env [[1], [2]] [- 1, - 1]) 7 ''localhost:443''
       (Some (ssl_creds ''valid'')) empty_world = Inr (Error_label, 0, w')"
    by blast
  with inst have "contexts w' = contexts empty_world \<and> resolved_sets w' = resolved_sets empty_world \<and>
      tcp_servers w' = tcp_servers empty_world \<and> blocks w' = blocks empty_world \<and>
      listeners w' = listeners empty_world"
    by blast
  with run show ?thesis by (auto simp: empty_world_def)
qed

text \<open>
  C2: when the call reaches the binding loop, the assertion of line 147 fails exactly when
  some successful bind returns a port other than the one of the first successful bind; so
  when all successful binds return the same port the assertion cannot fail. A call that
  registers a listener returns the port of the first successful bind, and every
  successful bind returned that port.
\<close>

theorem port_mismatch_faults:
  assumes "reaches_binding env addr creds w addrs"
  shows "(grpc_server_add_secure_http2_port env server addr creds w = Inl Assertion_failure \<longleftrightarrow>
            (\<exists>p \<in> set (bound_ports env addrs). p \<noteq> hd (bound_ports env addrs))) \<and>
         (\<forall>r w'. grpc_server_add_secure_http2_port env server addr creds w =
                    Inr (Return_port_num, r, w') \<longrightarrow>
            r = hd (bound_ports env addrs) \<and> (\<forall>p \<in> set (bound_ports env addrs). p = r))"
proof -
  from assms obtain c where c: "creds = Some c"
    by (cases creds) (simp_all add: reaches_binding_def)
  have "grpc_server_add_secure_http2_port env server addr creds w = Inl Assertion_failure \<longleftrightarrow>
          (\<exists>p \<in> set (bound_ports env addrs). p \<noteq> hd (bound_ports env addrs))"
    using add_port_binding [OF assms [unfolded c], of server]
    by (cases "bound_ports env addrs") (auto simp: c)
  moreover have "r = hd (bound_ports env addrs) \<and> (\<forall>p \<in> set (bound_ports env addrs). p = r)"
    if "grpc_server_add_secure_http2_port env server addr creds w = Inr (Return_port_num, r, w')"
    for r w'
    using add_port_return [OF that] reaches_binding_addrs [OF assms] by blast
  ultimately show ?thesis by blast
qed

theorem port_mismatch_faults_witness:
  "reaches_binding (example_env [[1], [2], [3]] [443, - 1, 443]) ''localhost:443''
     (Some fake_creds) empty_world [[1], [2], [3]] \<and>
   grpc_server_add_secure_http2_port (example_env [[1], [2], [3]] [443, - 1, 443]) 7
     ''localhost:443'' (Some fake_creds) empty_world \<noteq> Inl Assertion_failure \<and>
   reaches_binding (example_env [[1], [2], [3]] [443, - 1, 8443]) ''localhost:443''
     (Some fake_creds) empty_world [[1], [2], [3]] \<and>
   grpc_server_add_secure_http2_port (example_env [[1], [2], [3]] [443, - 1, 8443]) 7
     ''localhost:443'' (Some fake_creds) empty_world = Inl Assertion_failure"
proof -
  have r1: "reaches_binding (example_env [[1], [2], [3]] [443, - 1, 443]) ''localhost:443''
     (Some fake_creds) empty_world [[1], [2], [3]]"
    by (simp add: example_defs)
  have r2: "reaches_binding (example_env [[1], [2], [3]] [443, - 1, 8443]) ''localhost:443''
     (Some fake_creds) empty_world [[1], [2], [3]]"
    by (simp add: example_defs)
  have b1: "bound_ports (example_env [[1], [2], [3]] [443, - 1, 443]) [[1], [2], [3]] = [443, 443]"
    by (simp add: example_defs)
  have b2: "bound_ports (example_env [[1], [2], [3]] [443, - 1, 8443]) [[1], [2], [3]] = [443, 8443]"
    by (simp add: example_defs)
  show ?thesis
    using r1 r2 port_mismatch_faults [OF r1, of 7] port_mismatch_faults [OF r2, of 7]
    by (simp add: b1 b2)
qed

text \<open>
  C3, as stated, does not hold for every resolved address set with \<open>0 < M < N\<close>. With
  three addresses whose binds return 443, a failure and 8443, two of three bind and the
  assertion of line 147 stops the process. With \<open>2 ^ 32 + 1\<close> addresses of which the
  first \<open>2 ^ 32\<close> bind on port 443, the 32-bit \<open>count\<close> is 0 after the loop and the
  call leaves through the error label with the result 0.
\<close>

theorem partial_bind_can_abort_or_fail:
  "length [[1], [2], [3 :: 8 word]] = 3 \<and>
   length (bound_ports (example_env [[1], [2], [3]] [443, - 1, 8443]) [[1], [2], [3]]) = 2 \<and>
   grpc_server_add_secure_http2_port (example_env [[1], [2], [3]] [443, - 1, 8443]) 7
     ''localhost:443'' (Some fake_creds) empty_world = Inl Assertion_failure \<and>
   length many_addrs = 2 ^ 32 + 1 \<and>
   length (bound_ports (example_env many_addrs many_ports) many_addrs) = 2 ^ 32 \<and>
   exit_and_value
     (grpc_server_add_secure_http2_port (example_env many_addrs many_ports) 7
        ''localhost:443'' (Some fake_creds) empty_world) = Some (Error_label, 0)"
proof -
  have r: "reaches_binding (example_env [[1], [2], [3]] [443, - 1, 8443]) ''localhost:443''
     (Some fake_creds) empty_world [[1], [2], [3]]"
    by (simp add: example_defs)
  have b: "bound_ports (example_env [[1], [2], [3]] [443, - 1, 8443]) [[1], [2], [3]] = [443, 8443]"
    by (simp add: example_defs)
  have abort: "grpc_server_add_secure_http2_port (example_env [[1], [2], [3]] [443, - 1, 8443]) 7
     ''localhost:443'' (Some fake_creds) empty_world = Inl Assertion_failure"
    by (simp add: add_port_binding [OF r] b)
  have len: "length many_addrs = 2 ^ 32 + 1"
    by (simp only: many_addrs_def length_replicate Suc_eq_plus1)
  have "length many_addrs = length many_ports"
    by (simp add: many_addrs_def many_ports_def)
  then have "bound_ports (example_env many_addrs many_ports) many_addrs =
               filter (\<lambda>r. 0 \<le> r) many_ports"
    by (rule bound_ports_example)
  also have "\<dots> = replicate (2 ^ 32) 443"
    by (simp only: many_ports_def filter_append filter_replicate) simp
  finally have m: "length (bound_ports (example_env many_addrs many_ports) many_addrs) = 2 ^ 32"
    by (simp only: length_replicate)
  have wrap: "exit_and_value
     (grpc_server_add_secure_http2_port (example_env many_addrs many_ports) 7
        ''localhost:443'' (Some fake_creds) empty_world) = Some (Error_label, 0)"
    unfolding many_addrs_def many_ports_def
    by (subst count_wraps_to_failure) (simp_all add: exit_and_value_def)
  from b abort len m wrap show ?thesis by simp
qed

text \<open>
  C3, amended: when the call reaches the binding loop with fewer than \<open>2 ^ 32\<close>
  addresses, all successful binds return the same port, and some but not all of the
  addresses bind, the call leaves through \<open>return port_num\<close> with the port of the
  first successful bind, registers the listener with the server, and logs the shortfall in
  one line (of severity \<open>GPR_ERROR\<close>) with the number of bound and of resolved
  addresses.
\<close>

theorem partial_bind_succeeds:
  assumes "reaches_binding env addr creds w addrs"
    and "length addrs < 2 ^ 32"
    and "\<forall>p \<in> set (bound_ports env addrs). p = hd (bound_ports env addrs)"
    and "0 < length (bound_ports env addrs)"
    and "length (bound_ports env addrs) < length addrs"
  shows "\<exists>w'. grpc_server_add_secure_http2_port env server addr creds w =
                Inr (Return_port_num, hd (bound_ports env addrs), w') \<and>
           listeners w' = listeners w @
             [\<lparr>l_server = server, l_arg = fresh_ptr (blocks w), l_start = Fn_start,
               l_destroy = Fn_destroy\<rparr>] \<and>
           log_entries w' = log_entries w @
             [\<lparr>severity = GPR_ERROR,
               format = ''Only %d addresses added out of total %d resolved'',
               args = [Arg_uint (length (bound_ports env addrs)), Arg_uint (length addrs)]\<rparr>]"
proof -
  from assms(1) obtain c where c: "creds = Some c"
    by (cases creds) (simp_all add: reaches_binding_def)
  from assms(4) obtain r rest where ports: "bound_ports env addrs = r # rest"
    by (cases "bound_ports env addrs") simp_all
  from assms(3) have same: "(\<forall>x \<in> set rest. x = r) = True"
    by (simp add: ports)
  have small: "Suc (length rest) < 2 ^ 32"
    using assms(2,5) by (simp add: ports)
  have nonzero: "(of_nat (Suc (length rest)) :: 32 word) \<noteq> 0"
    using count_word_zero [OF small] by simp
  have count: "unat (of_nat (Suc (length rest)) :: 32 word) = Suc (length rest)"
    by (rule count_word_unat [OF small])
  have fewer: "Suc (length rest) \<noteq> length addrs"
    using assms(5) by (simp add: ports)
  note frame = create_security_context_frame [of env c w]
  have "grpc_server_add_secure_http2_port env server addr creds w =
          Inr (Return_port_num, r,
            registered server (fst (snd (create_security_context env c w))) addrs
              (bind_results env [] addrs)
              (gpr_log GPR_ERROR ''Only %d addresses added out of total %d resolved''
                 [Arg_uint (Suc (length rest)), Arg_uint (length addrs)]
                 (snd (snd (create_security_context env c w)))))"
    by (simp only: c add_port_binding [OF assms(1) [unfolded c]] ports list.case same nonzero
          count fewer if_True if_False not_False_eq_True)
  then show ?thesis
    by (simp add: ports registered_def gpr_log_def frame)
qed

theorem partial_bind_succeeds_witness:
  "\<exists>w'. grpc_server_add_secure_http2_port (example_env [[1], [2], [3]] [443, - 1, 443]) 7
          ''localhost:443'' (Some fake_creds) empty_world = Inr (Return_port_num, 443, w') \<and>
        listeners w' =
          [\<lparr>l_server = 7, l_arg = 1, l_start = Fn_start, l_destroy = Fn_destroy\<rparr>] \<and>
        log_entries w' =
          [\<lparr>severity = GPR_ERROR, format = ''Only %d addresses added out of total %d resolved'',
            args = [Arg_uint 2, Arg_uint 3]\<rparr>]"
proof -
  have r: "reaches_binding (example_env [[1], [2], [3]] [443, - 1, 443]) ''localhost:443''
     (Some fake_creds) empty_world [[1], [2], [3]]"
    by (simp add: example_defs)
  have b: "bound_ports (example_env [[1], [2], [3]] [443, - 1, 443]) [[1], [2], [3]] = [443, 443]"
    by (simp add: example_defs)
  have "length [[1], [2], [3 :: 8 word]] < 2 ^ 32" by simp
  from partial_bind_succeeds [OF r this, of 7] show ?thesis
    by (simp add: b empty_world_def fresh_ptr_def numeral_2_eq_2 numeral_3_eq_3)
qed

text \<open>
  C4: when the call reaches the binding loop and no address binds, it leaves through the
  error label and returns 0; the tcp server, the resolved address set and the security
  context created earlier are gone again, nothing else is allocated, no listener is
  registered, and one line is logged.
\<close>

theorem zero_binds_fails_and_releases:
  assumes "reaches_binding env addr creds w addrs"
    and "bound_ports env addrs = []"
  shows "\<exists>w'. grpc_server_add_secure_http2_port env server addr creds w = Inr (Error_label, 0, w') \<and>
           tcp_servers w' = tcp_servers w \<and> resolved_sets w' = resolved_sets w \<and>
           contexts w' = contexts w \<and> blocks w' = blocks w \<and> listeners w' = listeners w \<and>
           log_entries w' = log_entries w @
             [\<lparr>severity = GPR_ERROR, format = ''No address added out of total %d resolved'',
               args = [Arg_uint (length addrs)]\<rparr>]"
proof -
  from assms(1) obtain c where c: "creds = Some c"
    by (cases creds) (simp_all add: reaches_binding_def)
  have "grpc_server_add_secure_http2_port env server addr creds w =
          Inr (Error_label, 0,
               gpr_log GPR_ERROR ''No address added out of total %d resolved''
                 [Arg_uint (length addrs)] w)"
    using add_port_binding [of env addr c w addrs server] assms by (simp add: c)
  then show ?thesis by (simp add: gpr_log_def)
qed

theorem zero_binds_fails_and_releases_witness:
  "reaches_binding (example_env [[1], [2]] [- 1, - 1]) ''localhost:443'' (Some fake_creds)
     empty_world [[1], [2]] \<and>
   bound_ports (example_env [[1], [2]] [- 1, - 1]) [[1], [2]] = [] \<and>
   (\<exists>w'. grpc_server_add_secure_http2_port (example_env [[1], [2]] [- 1, - 1]) 7
           ''localhost:443'' (Some fake_creds) empty_world = Inr (Error_label, 0, w') \<and>
         tcp_servers w' = [] \<and> resolved_sets w' = [] \<and> contexts w' = [] \<and> blocks w' = [] \<and>
         listeners w' = [] \<and>
         log_entries w' =
           [\<lparr>severity = GPR_ERROR, format = ''No address added out of total %d resolved'',
             args = [Arg_uint 2]\<rparr>])"
proof -
  have r: "reaches_binding (example_env [[1], [2]] [- 1, - 1]) ''localhost:443'' (Some fake_creds)
             empty_world [[1], [2]]"
    by (simp add: example_defs)
  have b: "bound_ports (example_env [[1], [2]] [- 1, - 1]) [[1], [2]] = []"
    by (simp add: example_defs)
  show ?thesis
    using r b zero_binds_fails_and_releases [OF r b, of 7]
    by (simp add: empty_world_def numeral_2_eq_2)
qed

text \<open>
  C5, as the claim states it, fails: a call whose first successful bind returns port 0
  succeeds with the result 0, the value every failing call returns.
\<close>

theorem failure_value_is_a_valid_port:
  "exit_and_value (grpc_server_add_secure_http2_port (example_env [[1]] [0]) 7 ''localhost:443''
     (Some fake_creds) empty_world) = Some (Return_port_num, 0) \<and>
   exit_and_value (grpc_server_add_secure_http2_port (example_env [[1]] [0]) 7 ''localhost:443''
     None empty_world) = Some (Error_label, 0)"
proof -
  have r: "reaches_binding (example_env [[1]] [0]) ''localhost:443''
     (Some fake_creds) empty_world [[1]]"
    by (simp add: example_defs)
  have b: "bound_ports (example_env [[1]] [0]) [[1]] = [0]"
    by (simp add: example_defs)
  show ?thesis
    by (simp add: add_port_binding [OF r] add_port_null b exit_and_value_def)
qed

text \<open>
  C5, amended: a call that succeeds returns the port of the first successful bind, which
  is not negative; a call that fails returns 0; so a result other than 0 always means
  success, and a failure differs from a success exactly when the port is not 0.
\<close>

theorem success_port_and_failure_zero:
  assumes "grpc_server_add_secure_http2_port env server addr creds w = Inr (ex, r, w')"
  shows "(ex = Return_port_num \<longrightarrow>
            0 \<le> r \<and>
            (\<exists>addrs. reaches_binding env addr creds w addrs \<and> bound_ports env addrs \<noteq> [] \<and>
               r = hd (bound_ports env addrs))) \<and>
         (ex = Error_label \<longrightarrow> r = 0) \<and>
         (r \<noteq> 0 \<longrightarrow> ex = Return_port_num)"
proof (cases ex)
  case Return_port_num
  from add_port_return [OF assms [unfolded Return_port_num]]
  obtain addrs where a: "reaches_binding env addr creds w addrs" "bound_ports env addrs \<noteq> []"
    "r = hd (bound_ports env addrs)"
    by blast
  from a(2,3) have "r \<in> set (bound_ports env addrs)" by simp
  then have "0 \<le> r" by (rule bound_ports_nonneg)
  with a Return_port_num show ?thesis by blast
next
  case Error_label
  with add_port_error [OF assms [unfolded Error_label]] show ?thesis by simp
qed

theorem success_port_and_failure_zero_witness:
  "\<exists>w'. grpc_server_add_secure_http2_port (example_env [[1], [2]] [- 1, 8443]) 7 ''localhost:443''
          (Some (ssl_creds ''valid'')) empty_world = Inr (Return_port_num, 8443, w') \<and>
        (0::int) \<le> 8443 \<and>
        reaches_binding (example_env [[1], [2]] [- 1, 8443]) ''localhost:443''
          (Some (ssl_creds ''valid'')) empty_world [[1], [2]] \<and>
        8443 = hd (bound_ports (example_env [[1], [2]] [- 1, 8443]) [[1], [2]])"
proof -
  have r: "reaches_binding (example_env [[1], [2]] [- 1, 8443]) ''localhost:443''
     (Some (ssl_creds ''valid'')) empty_world [[1], [2]]"
    by (simp add: example_defs)
  have b: "bound_ports (example_env [[1], [2]] [- 1, 8443]) [[1], [2]] = [8443]"
    by (simp add: example_defs)
  obtain w' where run: "grpc_server_add_secure_http2_port (example_env [[1], [2]] [- 1, 8443]) 7
      ''localhost:443'' (Some (ssl_creds ''valid'')) empty_world = Inr (Return_port_num, 8443, w')"
    by (simp add: add_port_binding [OF r] b)
  from success_port_and_failure_zero [OF run] r b run show ?thesis by auto
qed

text \<open>
  C6: when the credentials are NULL, or their type is neither the SSL nor the fake
  transport security type, or the SSL constructor does not return OK, the call leaves
  through the error label and returns 0; no security context is live that was not live
  before (also when the failing constructor had stored one), nothing else is allocated,
  and no listener is registered.
\<close>

theorem bad_credentials_fail_cleanly:
  assumes "creds = None \<or>
           (\<exists>c. creds = Some c \<and> creds_type c \<noteq> GRPC_CREDENTIALS_TYPE_SSL env \<and>
                creds_type c \<noteq> GRPC_CREDENTIALS_TYPE_FAKE_TRANSPORT_SECURITY env) \<or>
           (\<exists>c. creds = Some c \<and> creds_type c = GRPC_CREDENTIALS_TYPE_SSL env \<and>
                fst (ssl_context_outcome env (creds_config c)) \<noteq> GRPC_SECURITY_OK)"
  shows "\<exists>w'. grpc_server_add_secure_http2_port env server addr creds w = Inr (Error_label, 0, w') \<and>
           w' = (case creds of
                   None \<Rightarrow> w
                 | Some c \<Rightarrow>
                     gpr_log GPR_ERROR
                       ''Unable to create secure server with credentials of type %s.''
                       [Arg_str (creds_type c)] w) \<and>
           contexts w' = contexts w \<and> resolved_sets w' = resolved_sets w \<and>
           tcp_servers w' = tcp_servers w \<and> blocks w' = blocks w \<and> listeners w' = listeners w"
proof (cases creds)
  case None
  then show ?thesis by (simp add: add_port_null)
next
  case (Some c)
  with assms have "fst (create_security_context env c w) \<noteq> GRPC_SECURITY_OK"
    by (auto simp: create_security_context_status)
  with add_port_stages [of creds env server addr w] Some
  have "grpc_server_add_secure_http2_port env server addr creds w =
          Inr (Error_label, 0,
               gpr_log GPR_ERROR ''Unable to create secure server with credentials of type %s.''
                 [Arg_str (creds_type c)] w)"
    by (auto simp: reaches_binding_def)
  with Some show ?thesis by (simp add: gpr_log_def)
qed

theorem bad_credentials_fail_cleanly_witness:
  "\<exists>w'. grpc_server_add_secure_http2_port (example_env [[1]] [443]) 7 ''localhost:443''
          (Some (ssl_creds ''bad key'')) empty_world = Inr (Error_label, 0, w') \<and>
        contexts w' = [] \<and> resolved_sets w' = [] \<and> tcp_servers w' = [] \<and> blocks w' = [] \<and>
        listeners w' = []"
proof -
  have "Some (ssl_creds ''bad key'') = None \<or>
        (\<exists>c. Some (ssl_creds ''bad key'') = Some c \<and>
             creds_type c \<noteq> GRPC_CREDENTIALS_TYPE_SSL (example_env [[1]] [443]) \<and>
             creds_type c \<noteq> GRPC_CREDENTIALS_TYPE_FAKE_TRANSPORT_SECURITY (example_env [[1]] [443])) \<or>
        (\<exists>c. Some (ssl_creds ''bad key'') = Some c \<and>
             creds_type c = GRPC_CREDENTIALS_TYPE_SSL (example_env [[1]] [443]) \<and>
             fst (ssl_context_outcome (example_env [[1]] [443]) (creds_config c)) \<noteq> GRPC_SECURITY_OK)"
    by (simp add: example_defs)
  from bad_credentials_fail_cleanly [OF this, of 7 "''localhost:443''" empty_world]
  show ?thesis by (auto simp: empty_world_def)
qed

text \<open>
  C7: a handshake completion with status OK creates one metadata context and one chttp2
  transport over the secured endpoint, with the channel arguments of the server, and sets
  up one channel on the server over that transport with the two extra filters in their
  order; nothing is logged. A completion with any other status appends one log line that
  carries the status and changes nothing else: no transport, no channel, no second
  attempt. So a transport is created if and only if the status is OK.
\<close>

theorem handshake_completion_dispatch:
  "on_secure_transport_setup_done env server status ep w =
     (if status = GRPC_SECURITY_OK
      then w\<lparr>mdctxs := (fresh_ptr (mdctxs w), ()) # mdctxs w,
             transports :=
               (fresh_ptr (transports w),
                \<lparr>tr_endpoint = ep, tr_channel_args = channel_args_of env server,
                 tr_nslices = 0, tr_mdctx = fresh_ptr (mdctxs w), tr_is_client = False\<rparr>) #
               transports w,
             channels := channels w @
               [\<lparr>ch_server = server, ch_transport = fresh_ptr (transports w),
                 ch_extra_filters = [grpc_http_server_filter, grpc_http_filter],
                 ch_mdctx = fresh_ptr (mdctxs w)\<rparr>]\<rparr>
      else w\<lparr>log_entries := log_entries w @
             [\<lparr>severity = GPR_ERROR, format = ''Secure transport failed with error %d'',
               args = [Arg_status status]\<rparr>]\<rparr>) \<and>
   (transports (on_secure_transport_setup_done env server status ep w) \<noteq> transports w \<longleftrightarrow>
      status = GRPC_SECURITY_OK)"
  by (cases "status = GRPC_SECURITY_OK") (simp_all add: setup_done_ok setup_done_failed)

theorem handshake_completion_dispatch_witness:
  "transports (on_secure_transport_setup_done (example_env [] []) 7 GRPC_SECURITY_OK 9 empty_world) =
     [(1, \<lparr>tr_endpoint = 9, tr_channel_args = [], tr_nslices = 0, tr_mdctx = 1,
           tr_is_client = False\<rparr>)] \<and>
   on_secure_transport_setup_done (example_env [] []) 7 GRPC_SECURITY_ERROR 9 empty_world =
     empty_world\<lparr>log_entries :=
       [\<lparr>severity = GPR_ERROR, format = ''Secure transport failed with error %d'',
         args = [Arg_status GRPC_SECURITY_ERROR]\<rparr>]\<rparr>"
  using handshake_completion_dispatch [of "example_env [] []" 7 GRPC_SECURITY_OK 9 empty_world]
    handshake_completion_dispatch [of "example_env [] []" 7 GRPC_SECURITY_ERROR 9 empty_world]
  by (simp add: empty_world_def example_env_def fresh_ptr_def)

text \<open>
  C8: on a \<open>secured_port\<close> block whose tcp server and security context are live,
  \<open>destroy\<close> returns without a fault; in the state it returns the tcp server is gone,
  the context has one reference less (and is gone if that was the last one), the block is
  gone, and nothing else has changed. It does not look at whether the tcp server was
  started: after a \<open>start\<close> it yields the same state as without one.
\<close>

theorem destroy_releases_port:
  assumes "map_of (blocks w) spp = Some (Some sp)"
    and "map_of (tcp_servers w) (sp_tcp sp) = Some t"
    and "sp_ctx sp = Some c"
    and "map_of (contexts w) c = Some n"
  shows "\<exists>w'. destroy server spp w = Inr w' \<and>
           w' = w\<lparr>tcp_servers := AList.delete (sp_tcp sp) (tcp_servers w),
                  contexts := (if n \<le> 1 then AList.delete c (contexts w)
                               else AList.update c (n - 1) (contexts w)),
                  blocks := AList.delete spp (blocks w)\<rparr> \<and>
           map_of (tcp_servers w') (sp_tcp sp) = None \<and>
           map_of (contexts w') c = (if n \<le> 1 then None else Some (n - 1)) \<and>
           map_of (blocks w') spp = None \<and>
           (\<forall>pollsets k ws. start server spp pollsets k w = Inr ws \<longrightarrow>
              destroy server spp ws = Inr w')"
proof -
  define w' where "w' = w\<lparr>tcp_servers := AList.delete (sp_tcp sp) (tcp_servers w),
                  contexts := (if n \<le> 1 then AList.delete c (contexts w)
                               else AList.update c (n - 1) (contexts w)),
                  blocks := AList.delete spp (blocks w)\<rparr>"
  have run: "destroy server spp w = Inr w'"
    using assms
    by (simp add: w'_def destroy_def load_secured_port_def grpc_tcp_server_destroy_def
          grpc_security_context_unref_def gpr_free_def and_then_def)
  have gone: "map_of (tcp_servers w') (sp_tcp sp) = None"
    "map_of (contexts w') c = (if n \<le> 1 then None else Some (n - 1))"
    "map_of (blocks w') spp = None"
    by (simp_all add: w'_def delete_conv' update_conv')
  have "destroy server spp ws = Inr w'"
    if "start server spp pollsets k w = Inr ws" for pollsets k ws
  proof -
    from that assms have ws: "ws = w\<lparr>tcp_servers :=
        AList.update (sp_tcp sp) (t\<lparr>accepting := Some (Fn_on_accept, spp)\<rparr>) (tcp_servers w)\<rparr>"
      by (auto simp: start_def load_secured_port_def grpc_tcp_server_start_def and_then_def)
    show ?thesis
      using assms
      by (simp add: ws w'_def destroy_def load_secured_port_def grpc_tcp_server_destroy_def
            grpc_security_context_unref_def gpr_free_def and_then_def update_conv'
            delete_update_same)
  qed
  with run gone show ?thesis unfolding w'_def [symmetric] by blast
qed

theorem destroy_releases_port_witness:
  "\<exists>w1. grpc_server_add_secure_http2_port (example_env [[1]] [443]) 7 ''localhost:443''
          (Some fake_creds) empty_world = Inr (Return_port_num, 443, w1) \<and>
        map_of (blocks w1) 1 = Some (Some \<lparr>sp_tcp = 1, sp_ctx = Some 1, sp_server = 7\<rparr>) \<and>
        map_of (tcp_servers w1) 1 = Some \<lparr>attempts = [([1], 443)], accepting = None\<rparr> \<and>
        map_of (contexts w1) 1 = Some 1 \<and>
        destroy 7 1 w1 =
          Inr (empty_world\<lparr>listeners :=
                 [\<lparr>l_server = 7, l_arg = 1, l_start = Fn_start, l_destroy = Fn_destroy\<rparr>]\<rparr>)"
proof -
  have r: "reaches_binding (example_env [[1]] [443]) ''localhost:443'' (Some fake_creds)
             empty_world [[1]]"
    by (simp add: example_defs)
  have b: "bound_ports (example_env [[1]] [443]) [[1]] = [443]"
    and rs: "add_port_outcome (example_env [[1]] [443]) [] [1] = 443"
    by (simp_all add: example_defs)
  define w1 where "w1 =
    \<lparr>contexts = [(1, 1)], resolved_sets = [],
      tcp_servers = [(1, \<lparr>attempts = [([1], 443)], accepting = None\<rparr>)],
      blocks = [(1, Some \<lparr>sp_tcp = 1, sp_ctx = Some 1, sp_server = 7\<rparr>)],
      mdctxs = [], transports = [], channels = [],
      listeners = [\<lparr>l_server = 7, l_arg = 1, l_start = Fn_start, l_destroy = Fn_destroy\<rparr>],
      log_entries = []\<rparr>"
  have run: "grpc_server_add_secure_http2_port (example_env [[1]] [443]) 7 ''localhost:443''
          (Some fake_creds) empty_world = Inr (Return_port_num, 443, w1)"
  proof -
    have "grpc_server_add_secure_http2_port (example_env [[1]] [443]) 7 ''localhost:443''
            (Some fake_creds) empty_world =
          Inr (Return_port_num, 443,
            registered 7
              (fst (snd (create_security_context (example_env [[1]] [443]) fake_creds empty_world)))
              [[1]] [443]
              (snd (snd (create_security_context (example_env [[1]] [443]) fake_creds empty_world))))"
      by (simp add: add_port_binding [OF r] b rs)
    also have "\<dots> = Inr (Return_port_num, 443, w1)"
      by (simp add: registered_def w1_def fresh_ptr_def example_defs)
    finally show ?thesis .
  qed
  have h: "map_of (blocks w1) 1 = Some (Some \<lparr>sp_tcp = 1, sp_ctx = Some 1, sp_server = 7\<rparr>)"
    "map_of (tcp_servers w1) (sp_tcp \<lparr>sp_tcp = 1, sp_ctx = Some 1, sp_server = 7\<rparr>) =
       Some \<lparr>attempts = [([1], 443)], accepting = None\<rparr>"
    "sp_ctx \<lparr>sp_tcp = 1, sp_ctx = Some 1, sp_server = 7\<rparr> = Some 1"
    "map_of (contexts w1) 1 = Some 1"
    by (simp_all add: w1_def)
  from destroy_releases_port [OF h, of 7] run h show ?thesis
    by (auto simp: w1_def empty_world_def)
qed

text \<open>
  C9: a call that returns leaves through the error label with the value 0, or through
  \<open>return port_num\<close> with the port of the first successful bind, which is not
  negative; so the returned value is never negative. A first successful bind on port 0
  makes a successful call return 0, the value of a failing call.
\<close>

theorem returns_zero_or_first_bound_port:
  "(\<forall>ex r w'. grpc_server_add_secure_http2_port env server addr creds w = Inr (ex, r, w') \<longrightarrow>
      \<not> r < 0 \<and>
      (ex = Error_label \<and> r = 0 \<or>
       ex = Return_port_num \<and>
         (\<exists>addrs. resolve_outcome env addr ''https'' = Some addrs \<and>
            bound_ports env addrs \<noteq> [] \<and> r = hd (bound_ports env addrs) \<and> 0 \<le> r))) \<and>
   (\<exists>w1 w2.
      grpc_server_add_secure_http2_port (example_env [[1], [2]] [- 1, 0]) 7 ''localhost:443''
        (Some (ssl_creds ''valid'')) empty_world = Inr (Return_port_num, 0, w1) \<and>
      grpc_server_add_secure_http2_port (example_env [[1], [2]] [- 1, 0]) 7 ''nowhere''
        (Some (ssl_creds ''valid'')) empty_world = Inr (Error_label, 0, w2))"
proof -
  have returned: "\<not> r < 0 \<and>
      (ex = Error_label \<and> r = 0 \<or>
       ex = Return_port_num \<and>
         (\<exists>addrs. resolve_outcome env addr ''https'' = Some addrs \<and>
            bound_ports env addrs \<noteq> [] \<and> r = hd (bound_ports env addrs) \<and> 0 \<le> r))"
    if run: "grpc_server_add_secure_http2_port env server addr creds w = Inr (ex, r, w')"
    for ex r w'
  proof (cases ex)
    case Return_port_num
    from add_port_return [OF run [unfolded Return_port_num]]
    obtain addrs where a: "reaches_binding env addr creds w addrs" "bound_ports env addrs \<noteq> []"
      "r = hd (bound_ports env addrs)"
      by blast
    from a(2,3) have "r \<in> set (bound_ports env addrs)" by simp
    then have "0 \<le> r" by (rule bound_ports_nonneg)
    moreover from a(1) have "resolve_outcome env addr ''https'' = Some addrs"
      by (simp add: reaches_binding_def)
    ultimately show ?thesis using a Return_port_num by auto
  next
    case Error_label
    with add_port_error [OF run [unfolded Error_label]] show ?thesis by simp
  qed
  have r: "reaches_binding (example_env [[1], [2]] [- 1, 0]) ''localhost:443''
     (Some (ssl_creds ''valid'')) empty_world [[1], [2]]"
    by (simp add: example_defs)
  have b: "bound_ports (example_env [[1], [2]] [- 1, 0]) [[1], [2]] = [0]"
    by (simp add: example_defs)
  have ok: "\<exists>w1. grpc_server_add_secure_http2_port (example_env [[1], [2]] [- 1, 0]) 7
      ''localhost:443'' (Some (ssl_creds ''valid'')) empty_world = Inr (Return_port_num, 0, w1)"
    by (simp add: add_port_binding [OF r] b)
  have "resolve_outcome (example_env [[1], [2]] [- 1, 0]) ''nowhere'' ''https'' = None"
    by (simp add: example_env_def)
  with add_port_stages [of "Some (ssl_creds ''valid'')" "example_env [[1], [2]] [- 1, 0]" 7
      "''nowhere''" empty_world]
  have failed: "\<exists>w2. grpc_server_add_secure_http2_port (example_env [[1], [2]] [- 1, 0]) 7 ''nowhere''
        (Some (ssl_creds ''valid'')) empty_world = Inr (Error_label, 0, w2)"
    by (auto simp: reaches_binding_def)
  from returned ok failed show ?thesis by blast
qed

theorem returns_zero_or_first_bound_port_witness:
  "\<exists>w'. grpc_server_add_secure_http2_port (example_env [[1], [2], [3]] [- 1, 50051, 50051]) 7
          ''localhost:443'' (Some fake_creds) empty_world = Inr (Return_port_num, 50051, w') \<and>
        \<not> (50051 :: int) < 0 \<and>
        50051 = hd (bound_ports (example_env [[1], [2], [3]] [- 1, 50051, 50051]) [[1], [2], [3]])"
proof -
  have r: "reaches_binding (example_env [[1], [2], [3]] [- 1, 50051, 50051]) ''localhost:443''
     (Some fake_creds) empty_world [[1], [2], [3]]"
    by (simp add: example_defs)
  have b: "bound_ports (example_env [[1], [2], [3]] [- 1, 50051, 50051]) [[1], [2], [3]] =
             [50051, 50051]"
    by (simp add: example_defs)
  obtain w' where run: "grpc_server_add_secure_http2_port
      (example_env [[1], [2], [3]] [- 1, 50051, 50051]) 7 ''localhost:443'' (Some fake_creds)
      empty_world = Inr (Return_port_num, 50051, w')"
    by (simp add: add_port_binding [OF r] b)
  from returns_zero_or_first_bound_port [of "example_env [[1], [2], [3]] [- 1, 50051, 50051]" 7
      "''localhost:443''" "Some fake_creds" empty_world] run b
  show ?thesis by auto
qed

text \<open>
  C10: every handshake completion with status OK, for any server, endpoint and state,
  sets up the channel with exactly the two extra filters \<open>grpc_http_server_filter\<close>,
  then \<open>grpc_http_filter\<close>, and with a metadata context that was not live before and
  that this completion created; the next completion gets another one.
\<close>

theorem transport_filters_fixed:
  "channels (on_secure_transport_setup_done env server GRPC_SECURITY_OK ep w) =
     channels w @
       [\<lparr>ch_server = server, ch_transport = fresh_ptr (transports w),
         ch_extra_filters = [grpc_http_server_filter, grpc_http_filter],
         ch_mdctx = fresh_ptr (mdctxs w)\<rparr>] \<and>
   mdctxs (on_secure_transport_setup_done env server GRPC_SECURITY_OK ep w) =
     (fresh_ptr (mdctxs w), ()) # mdctxs w \<and>
   fresh_ptr (mdctxs w) \<notin> fst ` set (mdctxs w) \<and>
   fresh_ptr (mdctxs (on_secure_transport_setup_done env server GRPC_SECURITY_OK ep w)) \<noteq>
     fresh_ptr (mdctxs w)"
  using fresh_ptr_new [of "mdctxs w"]
  by (simp add: setup_done_ok) (simp add: fresh_ptr_def)

end
